theory Spec2Isabelle
  imports Complex_Main "HOL-Library.Log_Nat"
begin

section \<open>Strings, hexadecimal digits and number conversions\<close>

text \<open>
  The admin scripts work on JavaScript strings and numbers. Strings are modelled as
  \<^typ>\<open>string\<close>; the few engine primitives the scripts call (\<open>parseInt\<close> with radix 16,
  the conversion of an integer to its decimal text inside a template literal,
  \<open>String.prototype.replace\<close> with a string pattern and \<open>substr\<close>) are written out here.
\<close>

definition digitValue :: "char \<Rightarrow> nat option" where
  \<comment> \<open>the value of a radix-16 digit, as \<open>parseInt(_, 16)\<close> reads it\<close>
  "digitValue c =
     (let n = (of_char c :: nat)
      in if 48 \<le> n \<and> n \<le> 57 then Some (n - 48)
         else if 97 \<le> n \<and> n \<le> 102 then Some (n - 87)
         else if 65 \<le> n \<and> n \<le> 70 then Some (n - 55)
         else None)"

definition isWhiteSpace :: "char \<Rightarrow> bool" where
  \<comment> \<open>the white space and line terminator code units below 256: tab, line feed,
      vertical tab, form feed, carriage return, space, no-break space\<close>
  "isWhiteSpace c \<longleftrightarrow> (of_char c :: nat) \<in> {9, 10, 11, 12, 13, 32, 160}"

fun radixValue :: "nat \<Rightarrow> string \<Rightarrow> nat" where
  \<comment> \<open>left-to-right positional value of a run of radix-16 digits, accumulator first\<close>
  "radixValue acc [] = acc"
| "radixValue acc (c # cs) =
     (case digitValue c of None \<Rightarrow> acc | Some d \<Rightarrow> radixValue (16 * acc + d) cs)"

definition stripSign :: "string \<Rightarrow> int \<times> string" where
  "stripSign s =
     (case s of
        [] \<Rightarrow> (1, [])
      | c # cs \<Rightarrow> if c = CHR ''-'' then (- 1, cs) else if c = CHR ''+'' then (1, cs) else (1, s))"

definition stripHexPrefix :: "string \<Rightarrow> string" where
  "stripHexPrefix s =
     (case s of
        a # b # cs \<Rightarrow> if a = CHR ''0'' \<and> (b = CHR ''x'' \<or> b = CHR ''X'') then cs else s
      | _ \<Rightarrow> s)"

definition parseInt16 :: "string \<Rightarrow> int option" where
  \<comment> \<open>\<open>parseInt(s, 16)\<close>; \<open>None\<close> is \<open>NaN\<close>. The integer is exact for fewer than
      fourteen digits; the scripts pass two characters.\<close>
  "parseInt16 s =
     (let (sign, t) = stripSign (dropWhile isWhiteSpace s);
          u = stripHexPrefix t;
          z = takeWhile (\<lambda>c. digitValue c \<noteq> None) u
      in if z = [] then None else Some (sign * int (radixValue 0 z)))"

fun decimalDigits :: "nat \<Rightarrow> string" where
  "decimalDigits n =
     (if n < 10 then [''0123456789'' ! n]
      else decimalDigits (n div 10) @ [''0123456789'' ! (n mod 10)])"

declare decimalDigits.simps [simp del]

definition intToString :: "int \<Rightarrow> string" where
  \<comment> \<open>the text a template literal inserts for an integer-valued number\<close>
  "intToString i = (if i < 0 then CHR ''-'' # decimalDigits (nat (- i)) else decimalDigits (nat i))"

definition numToString :: "int option \<Rightarrow> string" where
  "numToString v = (case v of None \<Rightarrow> ''NaN'' | Some i \<Rightarrow> intToString i)"

definition substr :: "string \<Rightarrow> nat \<Rightarrow> nat \<Rightarrow> string" where
  \<comment> \<open>\<open>s.substr(start, len)\<close> for non-negative arguments\<close>
  "substr s start len = take len (drop start s)"

fun replaceFirst :: "char \<Rightarrow> string \<Rightarrow> string" where
  \<comment> \<open>\<open>s.replace(c, '')\<close> with a one-character string pattern: only the first hit goes\<close>
  "replaceFirst c [] = []"
| "replaceFirst c (x # xs) = (if x = c then xs else x # replaceFirst c xs)"

section \<open>Tag admin: colour validation and conversion (tag\_admin.js)\<close>

definition hexDigitClass :: "char \<Rightarrow> bool" where
  \<comment> \<open>the character class \<open>[A-Fa-f0-9]\<close>\<close>
  "hexDigitClass c \<longleftrightarrow> c \<in> set ''ABCDEFabcdef0123456789''"

definition hexRegex_test :: "string \<Rightarrow> bool" where
  \<comment> \<open>\<open>/^#([A-Fa-f0-9]{6}|[A-Fa-f0-9]{3})$/.test(s)\<close>\<close>
  "hexRegex_test s =
     (case s of
        [] \<Rightarrow> False
      | c # ds \<Rightarrow> c = CHR ''#'' \<and>
                 ((length ds = 6 \<and> list_all hexDigitClass ds) \<or>
                  (length ds = 3 \<and> list_all hexDigitClass ds)))"

definition isValidColor :: "string \<Rightarrow> bool" where
  \<comment> \<open>tag\_admin.js: the falsy guard, then the regular expression\<close>
  "isValidColor color = (if color = [] then False else hexRegex_test color)"

definition hexPairClass :: "char \<Rightarrow> bool" where
  \<comment> \<open>the class \<open>[a-f\d]\<close> under the flag \<open>i\<close>\<close>
  "hexPairClass c \<longleftrightarrow> c \<in> set ''abcdef0123456789ABCDEF''"

definition rgbaRegex_exec :: "string \<Rightarrow> (string \<times> string \<times> string) option" where
  \<comment> \<open>\<open>/^#?([a-f\d]{2})([a-f\d]{2})([a-f\d]{2})$/i.exec(s)\<close>: the three groups\<close>
  "rgbaRegex_exec s =
     (let body = (case s of [] \<Rightarrow> s | c # cs \<Rightarrow> if c = CHR ''#'' then cs else s)
      in if length body = 6 \<and> list_all hexPairClass body
         then Some (take 2 body, take 2 (drop 2 body), take 2 (drop 4 body))
         else None)"

definition hexToRgba :: "string \<Rightarrow> string \<Rightarrow> string" where
  \<comment> \<open>\<open>alpha\<close> is given as the text the template literal inserts for it
      (\<open>''1''\<close> for the default parameter)\<close>
  "hexToRgba hex alpha =
     (case rgbaRegex_exec hex of
        Some (g1, g2, g3) \<Rightarrow>
          (let r = parseInt16 g1; g = parseInt16 g2; b = parseInt16 g3
           in ''rgba('' @ numToString r @ '', '' @ numToString g @ '', '' @ numToString b
              @ '', '' @ alpha @ '')'')
      | None \<Rightarrow> hex)"

section \<open>Advanced colour picker (the colour picker widget script)\<close>

text \<open>
  The widget script has its own \<open>isValidColor\<close>: after the same regular expression it asks
  the browser, by assigning the text to the \<open>color\<close> style of a throwaway element and reading
  it back. What the browser accepts is not part of the scripts; it enters as the predicate
  \<open>cssAccepts\<close>.
\<close>

definition isValidColor_picker :: "(string \<Rightarrow> bool) \<Rightarrow> string \<Rightarrow> bool" where
  "isValidColor_picker cssAccepts color =
     (if color = [] then False
      else if hexRegex_test color then True
      else cssAccepts color)"

definition cssBasicKeywords :: "string list" where
  \<comment> \<open>the sixteen basic colour keywords every CSS engine knows\<close>
  "cssBasicKeywords =
     [''black'', ''silver'', ''gray'', ''white'', ''maroon'', ''red'', ''purple'', ''fuchsia'',
      ''green'', ''lime'', ''olive'', ''yellow'', ''navy'', ''blue'', ''teal'', ''aqua'']"

definition cssKeywordEngine :: "string \<Rightarrow> bool" where
  \<comment> \<open>a browser that accepts the basic keywords and nothing else\<close>
  "cssKeywordEngine s \<longleftrightarrow> s \<in> set cssBasicKeywords"

subsection \<open>Double-precision arithmetic\<close>

text \<open>
  \<open>getContrastColor\<close> multiplies by \<open>0.299\<close>, \<open>0.587\<close> and \<open>0.114\<close>, none of which is a
  binary fraction, and compares with \<open>0.5\<close>, so the rounding of each operation is part of
  what the function computes. A number is modelled by the rational it denotes; \<open>fl\<close> rounds
  a rational to the nearest value with a 53-bit significand, ties to even. The exponent
  range is not modelled: every value that occurs in \<open>getContrastColor\<close> is zero or lies
  between \<open>2\<^sup>-\<^sup>1\<^sup>2\<close> and \<open>2\<^sup>8\<close> in magnitude, far from overflow and underflow. The
  tooltip code further down computes on pixel coordinates with the same \<open>fl\<close>; they are
  far from the limits of the exponent as well.
\<close>

definition roundHalfEven :: "rat \<Rightarrow> int" where
  "roundHalfEven y =
     (let f = \<lfloor>y\<rfloor>; d = y - of_int f
      in if d < 1 / 2 then f else if 1 / 2 < d then f + 1 else if even f then f else f + 1)"

definition binExponent :: "rat \<Rightarrow> int" where
  \<comment> \<open>for positive \<open>x\<close>, the \<open>e\<close> with \<open>2\<^sup>e \<le> x < 2\<^sup>e\<^sup>+\<^sup>1\<close>\<close>
  "binExponent x =
     (let (p, q) = quotient_of x; d = bitlen p - bitlen q
      in if 2 powi d \<le> x then d else d - 1)"

definition fl :: "rat \<Rightarrow> rat" where
  "fl x =
     (if x = 0 then 0
      else let e = binExponent \<bar>x\<bar>; m = roundHalfEven (\<bar>x\<bar> * 2 powi (52 - e))
           in sgn x * of_int m * 2 powi (e - 52))"

definition luminance :: "int \<Rightarrow> int \<Rightarrow> int \<Rightarrow> rat" where
  \<comment> \<open>\<open>(0.299 * r + 0.587 * g + 0.114 * b) / 255\<close>, each literal and each operation rounded\<close>
  "luminance r g b =
     fl (fl (fl (fl (fl (299 / 1000) * of_int r) + fl (fl (587 / 1000) * of_int g))
             + fl (fl (114 / 1000) * of_int b)) / 255)"

definition getContrastColor :: "string \<Rightarrow> string" where
  \<comment> \<open>a channel that parses to \<open>NaN\<close> makes the luminance \<open>NaN\<close>, and \<open>NaN > 0.5\<close> is false\<close>
  "getContrastColor hexColor =
     (let hex = replaceFirst CHR ''#'' hexColor;
          r = parseInt16 (substr hex 0 2);
          g = parseInt16 (substr hex 2 2);
          b = parseInt16 (substr hex 4 2)
      in case (r, g, b) of
           (Some r, Some g, Some b) \<Rightarrow>
             (let lum = luminance r g b in if lum > 1 / 2 then ''#000000'' else ''#ffffff'')
         | _ \<Rightarrow> ''#ffffff'')"

subsection \<open>Colour history\<close>

text \<open>
  The history lives under one local-storage key as the JSON text of an array of strings.
  The model keeps the array itself; \<open>None\<close> is the absent key.
\<close>

type_synonym storage = "string list option"

definition MAX_HISTORY :: nat where
  "MAX_HISTORY = 10"

definition getColorHistory :: "storage \<Rightarrow> string list" where
  "getColorHistory st = (case st of None \<Rightarrow> [] | Some history \<Rightarrow> history)"

definition addToColorHistory :: "string \<Rightarrow> storage \<Rightarrow> storage" where
  "addToColorHistory color st =
     (let history = getColorHistory st;
          history = filter (\<lambda>c. c \<noteq> color) history;
          history = color # history;
          history = take MAX_HISTORY history
      in Some history)"

definition colorHistoryAfter :: "string list \<Rightarrow> storage" where
  \<comment> \<open>the stored value after adding the given colours, oldest first, to an empty storage\<close>
  "colorHistoryAfter colors = foldl (\<lambda>st c. addToColorHistory c st) None colors"

section \<open>Floating tooltips (the global initialiser and the test-result script)\<close>

text \<open>
  The rectangles and the window size are numbers, and the positioning lines compute on
  them in double precision: every addition, subtraction and halving below is rounded by
  \<open>fl\<close>, in the order the expressions are evaluated. The literal \<open>8\<close> is exact.
\<close>

record domRect =
  rect_left :: rat
  rect_top :: rat
  rect_bottom :: rat
  rect_width :: rat
  rect_height :: rat

definition positionTooltip :: "domRect \<Rightarrow> domRect \<Rightarrow> rat \<Rightarrow> rat \<Rightarrow> rat \<times> rat" where
  \<comment> \<open>the positioning lines of \<open>showTooltip\<close>, the same in both scripts; the result is
      \<open>(top, left)\<close> as assigned to the style\<close>
  "positionTooltip rect tooltipRect innerWidth innerHeight =
     (let top = fl (rect_bottom rect + 8);
          left = fl (fl (rect_left rect + fl (rect_width rect / 2))
                     - fl (rect_width tooltipRect / 2));
          left = (if left < 8 then 8 else left);
          left = (if fl (left + rect_width tooltipRect) > fl (innerWidth - 8)
                  then fl (fl (innerWidth - rect_width tooltipRect) - 8) else left);
          top = (if fl (top + rect_height tooltipRect) > fl (innerHeight - 8)
                 then fl (fl (rect_top rect - rect_height tooltipRect) - 8) else top)
      in (top, left))"


text \<open>
  The global tooltip manager keeps one variable, \<open>currentTooltip\<close>. Nodes are told apart by
  the order of their creation. \<open>setTimeout\<close> and \<open>requestAnimationFrame\<close> callbacks are kept
  as pending work that a later event fires: the hide callback closes over the variable, so
  pending hide callbacks are only counted; a frame callback closes over its own node.
\<close>

record tooltipElement =
  el_id :: nat
  el_text :: string
  el_opacity :: string
  el_top :: rat
  el_left :: rat

record tooltipState =
  body :: "tooltipElement list"
  currentTooltip :: "nat option"
  hideTimers :: nat
  frames :: "nat list"
  created :: nat

definition initialTooltipState :: tooltipState where
  "initialTooltipState =
     \<lparr>body = [], currentTooltip = None, hideTimers = 0, frames = [], created = 0\<rparr>"

definition setOpacity :: "nat \<Rightarrow> string \<Rightarrow> tooltipElement list \<Rightarrow> tooltipElement list" where
  "setOpacity t v els = map (\<lambda>e. if el_id e = t then e\<lparr>el_opacity := v\<rparr> else e) els"

definition hideTooltip :: "tooltipState \<Rightarrow> tooltipState" where
  "hideTooltip s =
     (case currentTooltip s of
        None \<Rightarrow> s
      | Some t \<Rightarrow> s\<lparr>body := setOpacity t ''0'' (body s), hideTimers := Suc (hideTimers s)\<rparr>)"

definition hideTimeout :: "tooltipState \<Rightarrow> tooltipState" where
  \<comment> \<open>the callback \<open>hideTooltip\<close> schedules, run 200 ms later\<close>
  "hideTimeout s =
     (let s' = (case currentTooltip s of
                  None \<Rightarrow> s
                | Some t \<Rightarrow>
                    if t \<in> el_id ` set (body s)
                    then s\<lparr>body := filter (\<lambda>e. el_id e \<noteq> t) (body s)\<rparr> else s)
      in s'\<lparr>currentTooltip := None, hideTimers := hideTimers s - 1\<rparr>)"

definition showTooltip ::
  "domRect \<Rightarrow> string \<Rightarrow> domRect \<Rightarrow> rat \<Rightarrow> rat \<Rightarrow> tooltipState \<Rightarrow> tooltipState" where
  \<comment> \<open>the trigger enters through its rectangle; \<open>tooltipRect\<close> is the rectangle layout gives
      the new node\<close>
  "showTooltip rect text tooltipRect innerWidth innerHeight s0 =
     (let s = hideTooltip s0;
          t = created s;
          (top, left) = positionTooltip rect tooltipRect innerWidth innerHeight;
          tooltip = \<lparr>el_id = t, el_text = text, el_opacity = ''0'', el_top = top, el_left = left\<rparr>
      in s\<lparr>body := body s @ [tooltip], currentTooltip := Some t,
            frames := frames s @ [t], created := Suc t\<rparr>)"

definition animationFrame :: "tooltipState \<Rightarrow> tooltipState" where
  "animationFrame s =
     (case frames s of
        [] \<Rightarrow> s
      | t # ts \<Rightarrow> s\<lparr>body := setOpacity t ''1'' (body s), frames := ts\<rparr>)"

datatype tooltipEvent =
  MouseEnter domRect string domRect rat rat
  | MouseLeave
  | HideTimeout
  | AnimationFrame

fun tooltipStep :: "tooltipState \<Rightarrow> tooltipEvent \<Rightarrow> tooltipState" where
  "tooltipStep s (MouseEnter rect text tooltipRect w h) = showTooltip rect text tooltipRect w h s"
| "tooltipStep s MouseLeave = hideTooltip s"
| "tooltipStep s HideTimeout = (if hideTimers s = 0 then s else hideTimeout s)"
| "tooltipStep s AnimationFrame = animationFrame s"

definition tooltipRun :: "tooltipEvent list \<Rightarrow> tooltipState" where
  "tooltipRun events = foldl tooltipStep initialTooltipState events"

subsection \<open>Smart tooltips\<close>

text \<open>
  Every call of \<open>createSmartTooltip\<close> has its own variables \<open>tooltip\<close>, \<open>showTimeout\<close> and
  \<open>hideTimeout\<close>; the state below is one such closure with the smart tooltips it has put
  into the document. Timers carry their identifiers, since \<open>clearTimeout\<close> cancels by
  identifier, and are fired by a later event. All callbacks, the frame callback too, read
  the variable \<open>tooltip\<close> when they run; reading a property of \<open>null\<close> there throws, which
  ends the callback and is counted. \<open>mouseenter\<close> and \<open>focus\<close> both call the inner
  \<open>showTooltip\<close>, \<open>mouseleave\<close> and \<open>blur\<close> the inner \<open>hideTooltip\<close>.
\<close>

datatype smartCallback = CreateCallback | FadeCallback | RemoveCallback

record smartState =
  sm_fullText :: string
  sm_body :: "tooltipElement list"
  sm_tooltip :: "nat option"
  sm_showTimeout :: "nat option"
  sm_hideTimeout :: "nat option"
  sm_timers :: "(nat \<times> smartCallback) list"
  sm_nextTimer :: nat
  sm_frames :: nat
  sm_created :: nat
  sm_thrown :: nat

definition createSmartTooltip :: "string \<Rightarrow> smartState" where
  "createSmartTooltip fullText =
     \<lparr>sm_fullText = fullText, sm_body = [], sm_tooltip = None, sm_showTimeout = None,
      sm_hideTimeout = None, sm_timers = [], sm_nextTimer = 0, sm_frames = 0, sm_created = 0,
      sm_thrown = 0\<rparr>"

definition clearTimeout :: "nat option \<Rightarrow> (nat \<times> smartCallback) list \<Rightarrow> (nat \<times> smartCallback) list" where
  \<comment> \<open>\<open>null\<close> and identifiers of timers that have run or were cancelled are ignored\<close>
  "clearTimeout i timers = (case i of None \<Rightarrow> timers | Some j \<Rightarrow> filter (\<lambda>t. fst t \<noteq> j) timers)"

definition showTooltip_smart :: "smartState \<Rightarrow> smartState" where
  "showTooltip_smart s0 =
     (let s = s0\<lparr>sm_timers := clearTimeout (sm_hideTimeout s0) (sm_timers s0)\<rparr>;
          i = sm_nextTimer s
      in s\<lparr>sm_timers := sm_timers s @ [(i, CreateCallback)], sm_nextTimer := Suc i,
            sm_showTimeout := Some i\<rparr>)"

definition hideTooltip_smart :: "smartState \<Rightarrow> smartState" where
  "hideTooltip_smart s0 =
     (let s = s0\<lparr>sm_timers := clearTimeout (sm_showTimeout s0) (sm_timers s0)\<rparr>
      in case sm_tooltip s of
           None \<Rightarrow> s
         | Some t \<Rightarrow>
             (let i = sm_nextTimer s
              in s\<lparr>sm_timers := sm_timers s @ [(i, FadeCallback)], sm_nextTimer := Suc i,
                    sm_hideTimeout := Some i\<rparr>))"

definition createCallback :: "domRect \<Rightarrow> domRect \<Rightarrow> rat \<Rightarrow> rat \<Rightarrow> smartState \<Rightarrow> smartState" where
  \<comment> \<open>the callback of the inner \<open>showTooltip\<close>, run 500 ms later\<close>
  "createCallback rect tooltipRect innerWidth innerHeight s =
     (let t = sm_created s;
          (top, left) = positionTooltip rect tooltipRect innerWidth innerHeight;
          tooltip = \<lparr>el_id = t, el_text = sm_fullText s, el_opacity = ''0'',
                     el_top = top, el_left = left\<rparr>
      in s\<lparr>sm_tooltip := Some t, sm_body := sm_body s @ [tooltip],
            sm_frames := Suc (sm_frames s), sm_created := Suc t\<rparr>)"

definition fadeCallback :: "smartState \<Rightarrow> smartState" where
  \<comment> \<open>the callback of the inner \<open>hideTooltip\<close>, run 100 ms later; the timer it sets is kept
      in no variable\<close>
  "fadeCallback s =
     (case sm_tooltip s of
        None \<Rightarrow> s\<lparr>sm_thrown := Suc (sm_thrown s)\<rparr>
      | Some t \<Rightarrow>
          (let i = sm_nextTimer s
           in s\<lparr>sm_body := setOpacity t ''0'' (sm_body s),
                 sm_timers := sm_timers s @ [(i, RemoveCallback)], sm_nextTimer := Suc i\<rparr>))"

definition removeCallback :: "smartState \<Rightarrow> smartState" where
  \<comment> \<open>the inner callback of the fade, run 200 ms after it\<close>
  "removeCallback s =
     (let s' = (case sm_tooltip s of
                  None \<Rightarrow> s
                | Some t \<Rightarrow>
                    if t \<in> el_id ` set (sm_body s)
                    then s\<lparr>sm_body := filter (\<lambda>e. el_id e \<noteq> t) (sm_body s)\<rparr> else s)
      in s'\<lparr>sm_tooltip := None\<rparr>)"

definition frameCallback :: "smartState \<Rightarrow> smartState" where
  "frameCallback s =
     (case sm_tooltip s of
        None \<Rightarrow> s\<lparr>sm_thrown := Suc (sm_thrown s), sm_frames := sm_frames s - 1\<rparr>
      | Some t \<Rightarrow> s\<lparr>sm_body := setOpacity t ''1'' (sm_body s), sm_frames := sm_frames s - 1\<rparr>)"

datatype smartEvent =
  ShowEvent
  | HideEvent
  | TimerFires nat domRect domRect rat rat
  | FrameFires

fun smartStep :: "smartState \<Rightarrow> smartEvent \<Rightarrow> smartState" where
  "smartStep s ShowEvent = showTooltip_smart s"
| "smartStep s HideEvent = hideTooltip_smart s"
| "smartStep s (TimerFires i rect tooltipRect w h) =
     (case map_of (sm_timers s) i of
        None \<Rightarrow> s
      | Some cb \<Rightarrow>
          (let s' = s\<lparr>sm_timers := filter (\<lambda>t. fst t \<noteq> i) (sm_timers s)\<rparr>
           in case cb of
                CreateCallback \<Rightarrow> createCallback rect tooltipRect w h s'
              | FadeCallback \<Rightarrow> fadeCallback s'
              | RemoveCallback \<Rightarrow> removeCallback s'))"
| "smartStep s FrameFires = (if sm_frames s = 0 then s else frameCallback s)"

definition smartRun :: "string \<Rightarrow> smartEvent list \<Rightarrow> smartState" where
  "smartRun fullText events = foldl smartStep (createSmartTooltip fullText) events"

section \<open>Colour preset clicks (the two colour picker scripts)\<close>

text \<open>
  A click reaches the document-level handler with its target. The page is cut down to what
  the handler touches: the target, the widget container \<open>closest\<close> finds for it (if any) with
  the input and value label its selectors find, and the other presets of that container.

  The selector \<open>input[name=...]\<close> says nothing about the type of the input, and the value
  an input keeps depends on it: a colour input keeps a \<open>#\<close> and six hexadecimal digits in
  lower case and turns anything else into \<open>#000000\<close>, a text input drops line breaks, a
  hidden input keeps what it is given. \<open>dispatchEvent\<close> runs the change listeners of the
  input before it returns; the listeners here are the ones \<open>initColorPicker\<close> attaches to
  the input of a container, once per run over the page.
\<close>

datatype jsError = TypeError

datatype inputType = ColorType | TextType | HiddenType

record inputElement =
  inputType :: inputType
  inputValue :: string
  changeListeners :: nat

record preset =
  classList :: "string list"
  dataColor :: "string option"

record widget =
  colorInput :: "inputElement option"
  colorValue :: "string option"
  otherPresets :: "preset list"

record page =
  target :: preset
  container :: "widget option"
  defaultPrevented :: bool
  changeEvents :: nat
  usedMessages :: "string option list"
  thrown :: "jsError option"

definition classList_add :: "string \<Rightarrow> preset \<Rightarrow> preset" where
  "classList_add c p = (if c \<in> set (classList p) then p else p\<lparr>classList := classList p @ [c]\<rparr>)"

definition classList_remove :: "string \<Rightarrow> preset \<Rightarrow> preset" where
  "classList_remove c p = p\<lparr>classList := filter (\<lambda>x. x \<noteq> c) (classList p)\<rparr>"

definition assigned :: "string option \<Rightarrow> string" where
  \<comment> \<open>assigning \<open>null\<close> to \<open>value\<close> or \<open>textContent\<close> stores the empty string\<close>
  "assigned v = (case v of None \<Rightarrow> [] | Some c \<Rightarrow> c)"

definition asciiLower :: "char \<Rightarrow> char" where
  "asciiLower c =
     (case map_of (zip ''ABCDEFGHIJKLMNOPQRSTUVWXYZ'' ''abcdefghijklmnopqrstuvwxyz'') c of
        None \<Rightarrow> c
      | Some l \<Rightarrow> l)"

definition validSimpleColor :: "string \<Rightarrow> bool" where
  "validSimpleColor s =
     (case s of
        [] \<Rightarrow> False
      | c # ds \<Rightarrow> c = CHR ''#'' \<and> length ds = 6 \<and> list_all (\<lambda>d. digitValue d \<noteq> None) ds)"

definition sanitize :: "inputType \<Rightarrow> string \<Rightarrow> string" where
  \<comment> \<open>the value sanitisation of the input types\<close>
  "sanitize ty v =
     (case ty of
        ColorType \<Rightarrow> if validSimpleColor v then map asciiLower v else ''#000000''
      | TextType \<Rightarrow> filter (\<lambda>c. c \<noteq> CHR 0x0A \<and> c \<noteq> CHR 0x0D) v
      | HiddenType \<Rightarrow> v)"

definition setValue :: "string option \<Rightarrow> inputElement \<Rightarrow> inputElement" where
  \<comment> \<open>\<open>input.value = v\<close>\<close>
  "setValue v el = el\<lparr>inputValue := sanitize (inputType el) (assigned v)\<rparr>"

definition syncPreset :: "string \<Rightarrow> preset \<Rightarrow> preset" where
  \<comment> \<open>the body of the loop of \<open>syncPresetSelection\<close>\<close>
  "syncPreset selectedColor btn =
     (if dataColor btn = Some selectedColor
      then classList_add ''selected'' btn else classList_remove ''selected'' btn)"

definition syncPresetSelection :: "string \<Rightarrow> page \<Rightarrow> page" where
  \<comment> \<open>over all presets of the container, the target among them\<close>
  "syncPresetSelection selectedColor p =
     (case container p of
        None \<Rightarrow> p
      | Some w \<Rightarrow>
          p\<lparr>target := syncPreset selectedColor (target p),
            container := Some (w\<lparr>otherPresets := map (syncPreset selectedColor) (otherPresets w)\<rparr>)\<rparr>)"

definition updateColorValue :: "string \<Rightarrow> page \<Rightarrow> page" where
  "updateColorValue color p =
     (case container p of
        None \<Rightarrow> p
      | Some w \<Rightarrow>
          (case colorValue w of
             None \<Rightarrow> p
           | Some _ \<Rightarrow> p\<lparr>container := Some (w\<lparr>colorValue := Some color\<rparr>)\<rparr>))"

definition inputValueOf :: "page \<Rightarrow> string option" where
  \<comment> \<open>the value of the input of the container, if there is one\<close>
  "inputValueOf p =
     (case container p of None \<Rightarrow> None | Some w \<Rightarrow> map_option inputValue (colorInput w))"

definition changeListener :: "page \<Rightarrow> page" where
  \<comment> \<open>the change listener of the widget script that tracks used colours\<close>
  "changeListener p =
     (case inputValueOf p of
        None \<Rightarrow> p
      | Some v \<Rightarrow> updateColorValue v (syncPresetSelection v p))"

definition changeListener_static :: "page \<Rightarrow> page" where
  \<comment> \<open>the change listener of static/admin/js/color\_picker.js\<close>
  "changeListener_static p =
     (case inputValueOf p of
        None \<Rightarrow> p
      | Some v \<Rightarrow> syncPresetSelection v p)"

definition dispatchChange :: "(page \<Rightarrow> page) \<Rightarrow> page \<Rightarrow> page" where
  \<comment> \<open>\<open>colorInput.dispatchEvent(new Event('change', ...))\<close> with the listener of the script\<close>
  "dispatchChange listener p =
     (case container p of
        None \<Rightarrow> p
      | Some w \<Rightarrow>
          (case colorInput w of
             None \<Rightarrow> p
           | Some el \<Rightarrow>
               (listener ^^ changeListeners el) (p\<lparr>changeEvents := Suc (changeEvents p)\<rparr>)))"

definition showColorUsedMessage :: "preset \<Rightarrow> page \<Rightarrow> page" where
  \<comment> \<open>appends the notification; its text carries the colour of the button\<close>
  "showColorUsedMessage colorButton p = p\<lparr>usedMessages := usedMessages p @ [dataColor colorButton]\<rparr>"

definition presetClick :: "page \<Rightarrow> page" where
  \<comment> \<open>the click handler of the widget script that tracks used colours\<close>
  "presetClick p0 =
     (if ''color-preset'' \<in> set (classList (target p0)) then
        (let p = p0\<lparr>defaultPrevented := True\<rparr>
         in if ''used'' \<in> set (classList (target p)) then showColorUsedMessage (target p) p
            else
              (let color = dataColor (target p)
               in case container p of
                    None \<Rightarrow> p\<lparr>thrown := Some TypeError\<rparr>
                  | Some w \<Rightarrow>
                      (case colorInput w of
                         None \<Rightarrow> p
                       | Some el \<Rightarrow>
                           (let w1 = w\<lparr>colorInput := Some (setValue color el)\<rparr>;
                                w2 = (case colorValue w1 of
                                        None \<Rightarrow> w1
                                      | Some _ \<Rightarrow> w1\<lparr>colorValue := Some (assigned color)\<rparr>);
                                w3 = w2\<lparr>otherPresets :=
                                          map (classList_remove ''selected'') (otherPresets w2)\<rparr>;
                                t = classList_add ''selected''
                                      (classList_remove ''selected'' (target p))
                            in dispatchChange changeListener
                                 (p\<lparr>target := t, container := Some w3\<rparr>)))))
      else p0)"

definition presetClick_static :: "page \<Rightarrow> page" where
  \<comment> \<open>the click handler of static/admin/js/color\_picker.js\<close>
  "presetClick_static p0 =
     (if ''color-preset'' \<in> set (classList (target p0)) then
        (let p = p0\<lparr>defaultPrevented := True\<rparr>;
             color = dataColor (target p)
         in case container p of
              None \<Rightarrow> p\<lparr>thrown := Some TypeError\<rparr>
            | Some w \<Rightarrow>
                (case colorInput w of
                   None \<Rightarrow> p
                 | Some el \<Rightarrow>
                     (let w1 = w\<lparr>colorInput := Some (setValue color el)\<rparr>;
                          w2 = w1\<lparr>otherPresets :=
                                    map (classList_remove ''selected'') (otherPresets w1)\<rparr>;
                          t = classList_add ''selected'' (classList_remove ''selected'' (target p))
                      in dispatchChange changeListener_static
                           (p\<lparr>target := t, container := Some w2\<rparr>))))
      else p0)"

section \<open>Exported namespaces\<close>

text \<open>
  Each script ends by assigning an object literal to a property of \<open>window\<close>. A literal is
  modelled by its properties in order, each with the kind of value it holds; a function
  value carries the name of the function it is bound to.
\<close>

datatype jsValue = JsFunction string | JsObject | JsString string

type_synonym namespace = "(string \<times> jsValue) list"

definition PWAnalystInit :: namespace where
  "PWAnalystInit =
     [(''initialize'', JsFunction ''initialize''), (''config'', JsObject),
      (''logger'', JsObject), (''version'', JsString ''1.0'')]"

definition PWAnalystTestResults :: namespace where
  "PWAnalystTestResults =
     [(''initialize'', JsFunction ''initializeTestResultsEnhancements''),
      (''version'', JsString ''2.0'')]"

definition PWAnalystTagAdmin :: namespace where
  "PWAnalystTagAdmin =
     [(''enhanceTagDisplay'', JsFunction ''enhanceTagDisplay''),
      (''initializeTagColorPreview'', JsFunction ''initializeTagColorPreview''),
      (''addTagUtilities'', JsFunction ''addTagUtilities'')]"

definition PWAnalystColorPicker :: namespace where
  "PWAnalystColorPicker =
     [(''initialize'', JsFunction ''initializeAdvancedColorPickers''),
      (''addToHistory'', JsFunction ''addToHistory'')]"

definition callable :: "namespace \<Rightarrow> string \<Rightarrow> bool" where
  \<comment> \<open>\<open>typeof ns[name] === 'function'\<close>\<close>
  "callable ns name = (case map_of ns name of Some (JsFunction f) \<Rightarrow> True | _ \<Rightarrow> False)"

section \<open>Reference notions and sample inputs\<close>

definition hashHexColor :: "string \<Rightarrow> bool" where
  \<comment> \<open>a \<open>#\<close> followed by three or by six characters that have a radix-16 digit value\<close>
  "hashHexColor s =
     (case s of
        [] \<Rightarrow> False
      | c # ds \<Rightarrow> c = CHR ''#'' \<and> (length ds = 3 \<or> length ds = 6)
                 \<and> (\<forall>d \<in> set ds. digitValue d \<noteq> None))"

definition twoHovers :: "tooltipEvent list" where
  \<comment> \<open>the pointer enters one titled element, leaves it and enters the next before the
      first hide callback has run\<close>
  "twoHovers =
     [MouseEnter
        \<lparr>rect_left = 10, rect_top = 10, rect_bottom = 30, rect_width = 100, rect_height = 20\<rparr>
        ''first''
        \<lparr>rect_left = 0, rect_top = 0, rect_bottom = 40, rect_width = 200, rect_height = 40\<rparr>
        1024 768,
      MouseLeave,
      MouseEnter
        \<lparr>rect_left = 300, rect_top = 10, rect_bottom = 30, rect_width = 100, rect_height = 20\<rparr>
        ''second''
        \<lparr>rect_left = 0, rect_top = 0, rect_bottom = 40, rect_width = 200, rect_height = 40\<rparr>
        1024 768]"

definition hoverThenFocus :: "smartEvent list" where
  \<comment> \<open>a truncated title is hovered and then focused; both creation timers run\<close>
  "hoverThenFocus =
     [ShowEvent, ShowEvent,
      TimerFires 0
        \<lparr>rect_left = 10, rect_top = 10, rect_bottom = 30, rect_width = 100, rect_height = 20\<rparr>
        \<lparr>rect_left = 0, rect_top = 0, rect_bottom = 40, rect_width = 200, rect_height = 40\<rparr>
        1024 768,
      TimerFires 1
        \<lparr>rect_left = 10, rect_top = 10, rect_bottom = 30, rect_width = 100, rect_height = 20\<rparr>
        \<lparr>rect_left = 0, rect_top = 0, rect_bottom = 40, rect_width = 200, rect_height = 40\<rparr>
        1024 768]"

definition thenLeave :: "smartEvent list" where
  \<comment> \<open>the title is left; the fade timer and the removal timer it sets both run\<close>
  "thenLeave =
     [HideEvent,
      TimerFires 2
        \<lparr>rect_left = 10, rect_top = 10, rect_bottom = 30, rect_width = 100, rect_height = 20\<rparr>
        \<lparr>rect_left = 0, rect_top = 0, rect_bottom = 40, rect_width = 200, rect_height = 40\<rparr>
        1024 768,
      TimerFires 3
        \<lparr>rect_left = 10, rect_top = 10, rect_bottom = 30, rect_width = 100, rect_height = 20\<rparr>
        \<lparr>rect_left = 0, rect_top = 0, rect_bottom = 40, rect_width = 200, rect_height = 40\<rparr>
        1024 768]"

definition usedPresetPage :: page where
  \<comment> \<open>a widget whose colour input holds \<open>#3b82f6\<close>; the clicked preset is red and marked
      used\<close>
  "usedPresetPage =
     \<lparr>target = \<lparr>classList = [''color-preset'', ''used''], dataColor = Some ''#ff0000''\<rparr>,
      container =
        Some \<lparr>colorInput = Some \<lparr>inputType = ColorType, inputValue = ''#3b82f6'',
                                  changeListeners = 1\<rparr>,
              colorValue = Some ''#3b82f6'',
              otherPresets = [\<lparr>classList = [''color-preset'', ''selected''],
                               dataColor = Some ''#3b82f6''\<rparr>]\<rparr>,
      defaultPrevented = False, changeEvents = 0, usedMessages = [], thrown = None\<rparr>"

section \<open>Hexadecimal digits\<close>

lemma of_char_mem:
  "(of_char c :: nat) \<in> of_char ` set cs \<Longrightarrow> c \<in> set cs"
  by (auto simp del: of_char_Char)

lemma digitValue_codes:
  "digitValue c = Some v \<Longrightarrow> (of_char c :: nat) \<in> {48..57} \<union> {97..102} \<union> {65..70}"
  by (auto simp: digitValue_def Let_def split: if_splits)

lemma hexPairClass_iff: "hexPairClass c \<longleftrightarrow> digitValue c \<noteq> None"
proof
  assume "hexPairClass c"
  then show "digitValue c \<noteq> None"
    by (auto simp: hexPairClass_def digitValue_def)
next
  assume "digitValue c \<noteq> None"
  then obtain v where "digitValue c = Some v" by blast
  then have "(of_char c :: nat) \<in> {48..57} \<union> {97..102} \<union> {65..70}"
    by (rule digitValue_codes)
  then have "(of_char c :: nat) \<in>
      {97,98,99,100,101,102,48,49,50,51,52,53,54,55,56,57,65,66,67,68,69,70}"
    by (simp only: atLeastAtMost_iff Un_iff insert_iff empty_iff) presburger
  also have "\<dots> = of_char ` set ''abcdef0123456789ABCDEF''"
    by simp
  finally show "hexPairClass c"
    unfolding hexPairClass_def by (rule of_char_mem)
qed

lemma hexDigitClass_iff: "hexDigitClass c \<longleftrightarrow> digitValue c \<noteq> None"
proof
  assume "hexDigitClass c"
  then show "digitValue c \<noteq> None"
    by (auto simp: hexDigitClass_def digitValue_def)
next
  assume "digitValue c \<noteq> None"
  then obtain v where "digitValue c = Some v" by blast
  then have "(of_char c :: nat) \<in> {48..57} \<union> {97..102} \<union> {65..70}"
    by (rule digitValue_codes)
  then have "(of_char c :: nat) \<in>
      {65,66,67,68,69,70,97,98,99,100,101,102,48,49,50,51,52,53,54,55,56,57}"
    by (simp only: atLeastAtMost_iff Un_iff insert_iff empty_iff) presburger
  also have "\<dots> = of_char ` set ''ABCDEFabcdef0123456789''"
    by simp
  finally show "hexDigitClass c"
    unfolding hexDigitClass_def by (rule of_char_mem)
qed

lemma digit_not_space: "digitValue c = Some v \<Longrightarrow> \<not> isWhiteSpace c"
  by (auto simp: digitValue_def isWhiteSpace_def Let_def split: if_splits)

lemma digit_not_mark:
  "digitValue c = Some v \<Longrightarrow>
     c \<noteq> CHR ''-'' \<and> c \<noteq> CHR ''+'' \<and> c \<noteq> CHR ''x'' \<and> c \<noteq> CHR ''X'' \<and> c \<noteq> CHR ''#''"
  by (auto simp: digitValue_def Let_def split: if_splits)

lemma parseInt16_pair:
  assumes "digitValue a = Some va" "digitValue b = Some vb"
  shows "parseInt16 [a, b] = Some (int (16 * va + vb))"
  using assms digit_not_space [OF assms(1)] digit_not_mark [OF assms(1)] digit_not_mark [OF assms(2)]
  by (simp add: parseInt16_def stripSign_def stripHexPrefix_def)

section \<open>Rounding\<close>

lemma roundHalfEven_err: "\<bar>of_int (roundHalfEven y) - y\<bar> \<le> 1 / 2"
proof -
  define f where "f = \<lfloor>y\<rfloor>"
  have "of_int f \<le> y" "y < of_int f + 1" unfolding f_def by linarith+
  then show ?thesis
    unfolding roundHalfEven_def Let_def f_def [symmetric] by (auto simp: abs_if)
qed

lemma bitlen_powi_bounds:
  assumes "0 < (p::int)"
  shows "2 powi (bitlen p - 1) \<le> (of_int p :: rat)" and "(of_int p :: rat) < 2 powi (bitlen p)"
proof -
  from assms have b1: "1 \<le> bitlen p" by (simp add: bitlen_alt_def)
  from bitlen_bounds [OF assms]
  have lo: "2 ^ nat (bitlen p - 1) \<le> p" and hi: "p < 2 ^ nat (bitlen p)"
    by simp_all
  have "(2::rat) powi (bitlen p - 1) = 2 ^ nat (bitlen p - 1)"
    using b1 by (simp add: power_int_nonneg_exp)
  also have "\<dots> = of_int (2 ^ nat (bitlen p - 1))" by simp
  also have "\<dots> \<le> of_int p" using lo by (simp only: of_int_le_iff)
  finally show "2 powi (bitlen p - 1) \<le> (of_int p :: rat)" .
  have "(of_int p :: rat) < of_int (2 ^ nat (bitlen p))" using hi by (simp only: of_int_less_iff)
  also have "\<dots> = 2 ^ nat (bitlen p)" by simp
  also have "\<dots> = 2 powi (bitlen p)" using b1 by (simp add: power_int_nonneg_exp)
  finally show "(of_int p :: rat) < 2 powi (bitlen p)" .
qed

text \<open>\<open>binExponent\<close> is the binary exponent: the significand \<open>x / 2\<^sup>e\<close> lies in \<open>[1, 2)\<close>.\<close>

lemma binExponent_bounds:
  assumes "0 < x"
  shows "2 powi (binExponent x) \<le> x" and "x < 2 powi (binExponent x + 1)"
proof -
  obtain p q where pq: "quotient_of x = (p, q)" by (cases "quotient_of x")
  then have q: "0 < q" and x: "x = of_int p / of_int q"
    by (simp_all add: quotient_of_denom_pos quotient_of_div)
  from assms x q have p: "0 < p" by (simp add: zero_less_divide_iff)
  define d where "d = bitlen p - bitlen q"
  note P = bitlen_powi_bounds [OF p] and Q = bitlen_powi_bounds [OF q]
  have qpos: "(0::rat) < of_int q" using q by simp
  have "(2::rat) powi (d - 1) = 2 powi (bitlen p - 1) / 2 powi (bitlen q)"
    unfolding d_def by (simp add: power_int_diff [symmetric] algebra_simps)
  also have "\<dots> \<le> of_int p / 2 powi (bitlen q)"
    using P(1) by (simp add: divide_right_mono)
  also have "\<dots> \<le> of_int p / of_int q"
    using Q(2) p qpos by (intro divide_left_mono) (simp_all add: less_imp_le)
  finally have lo: "2 powi (d - 1) \<le> x" by (simp only: x)
  have "x = of_int p / of_int q" by (rule x)
  also have "\<dots> < 2 powi (bitlen p) / of_int q"
    using P(2) qpos by (simp add: divide_strict_right_mono)
  also have "\<dots> \<le> 2 powi (bitlen p) / 2 powi (bitlen q - 1)"
    using Q(1) qpos by (intro divide_left_mono) (simp_all add: zero_less_mult_iff)
  also have "\<dots> = 2 powi (d + 1)"
    unfolding d_def by (simp add: power_int_diff [symmetric] algebra_simps)
  finally have hi: "x < 2 powi (d + 1)" .
  have e: "binExponent x = (if 2 powi d \<le> x then d else d - 1)"
    by (simp add: binExponent_def pq d_def)
  show "2 powi (binExponent x) \<le> x" using lo by (simp add: e)
  show "x < 2 powi (binExponent x + 1)" using hi by (simp add: e not_le)
qed

text \<open>Rounding moves a value by at most half a unit in the last place.\<close>

lemma fl_rel_err:
  assumes "0 \<le> x"
  shows "\<bar>fl x - x\<bar> \<le> x / 2 ^ 53"
proof (cases "x = 0")
  case True
  then show ?thesis by (simp add: fl_def)
next
  case False
  with assms have pos: "0 < x" by simp
  define e where "e = binExponent x"
  define y where "y = x * 2 powi (52 - e)"
  define m where "m = roundHalfEven y"
  have flx: "fl x = of_int m * 2 powi (e - 52)"
    using pos by (simp add: fl_def Let_def e_def y_def m_def)
  have xy: "x = y * 2 powi (e - 52)"
    by (simp add: y_def power_int_add [symmetric])
  have "\<bar>fl x - x\<bar> = \<bar>of_int m - y\<bar> * 2 powi (e - 52)"
    by (subst xy, simp add: flx left_diff_distrib [symmetric] abs_mult)
  also have "\<dots> \<le> (1 / 2) * 2 powi (e - 52)"
    using roundHalfEven_err [of y] by (intro mult_right_mono) (simp_all add: m_def)
  also have "\<dots> = 2 powi e / 2 ^ 53"
    by (simp add: power_int_diff)
  also have "\<dots> \<le> x / 2 ^ 53"
    using binExponent_bounds(1) [OF pos] by (simp add: e_def divide_right_mono)
  finally show ?thesis .
qed

lemma fl_lower:
  assumes "0 \<le> a" "a \<le> x"
  shows "a * (1 - 1 / 2 ^ 53) \<le> fl x"
proof -
  from assms have x: "0 \<le> x" by simp
  from fl_rel_err [OF x] have "x - x / 2 ^ 53 \<le> fl x" by linarith
  moreover have "a * (1 - 1 / 2 ^ 53) \<le> x * (1 - 1 / 2 ^ 53)"
    using assms(2) by (intro mult_right_mono) simp_all
  ultimately show ?thesis by (simp add: algebra_simps)
qed

lemma fl_upper:
  assumes "0 \<le> x" "x \<le> b"
  shows "fl x \<le> b * (1 + 1 / 2 ^ 53)"
proof -
  from fl_rel_err [OF assms(1)] have "fl x \<le> x + x / 2 ^ 53" by linarith
  moreover have "x * (1 + 1 / 2 ^ 53) \<le> b * (1 + 1 / 2 ^ 53)"
    using assms(2) by (intro mult_right_mono) simp_all
  ultimately show ?thesis by (simp add: algebra_simps)
qed

lemma fl_nonneg: "0 \<le> x \<Longrightarrow> 0 \<le> fl x"
  using fl_lower [of 0 x] by simp

lemma fl_product_bounds:
  fixes k n :: rat
  assumes "0 \<le> k" "0 \<le> n"
  shows "k * n * (1 - 1 / 2 ^ 53) ^ 2 \<le> fl (fl k * n)"
    and "fl (fl k * n) \<le> k * n * (1 + 1 / 2 ^ 53) ^ 2"
    and "0 \<le> fl (fl k * n)"
proof -
  let ?lo = "1 - 1 / 2 ^ 53 :: rat" and ?hi = "1 + 1 / 2 ^ 53 :: rat"
  have k1: "k * ?lo \<le> fl k" using assms(1) by (intro fl_lower) simp_all
  have k2: "fl k \<le> k * ?hi" using assms(1) by (intro fl_upper) simp_all
  have k0: "0 \<le> fl k" using assms(1) by (rule fl_nonneg)
  have "(k * n * ?lo) * ?lo \<le> fl (fl k * n)"
  proof (rule fl_lower)
    show "0 \<le> k * n * ?lo" using assms by simp
    have "(k * ?lo) * n \<le> fl k * n" using k1 assms(2) by (rule mult_right_mono)
    then show "k * n * ?lo \<le> fl k * n" by (simp add: mult_ac)
  qed
  then show "k * n * ?lo ^ 2 \<le> fl (fl k * n)" by (simp add: power2_eq_square mult_ac)
  have "fl (fl k * n) \<le> (k * n * ?hi) * ?hi"
  proof (rule fl_upper)
    show "0 \<le> fl k * n" using k0 assms(2) by simp
    have "fl k * n \<le> (k * ?hi) * n" using k2 assms(2) by (rule mult_right_mono)
    then show "fl k * n \<le> k * n * ?hi" by (simp add: mult_ac)
  qed
  then show "fl (fl k * n) \<le> k * n * ?hi ^ 2" by (simp add: power2_eq_square mult_ac)
  show "0 \<le> fl (fl k * n)" using k0 assms(2) by (intro fl_nonneg) simp
qed

section \<open>Values on which the rounding is exact\<close>












section \<open>Tooltip position\<close>




text \<open>
  Off the layout values the sums round. With a tooltip width of \<open>128.6\<close> (the nearest
  double) in a window 1440 wide, the offset the code assigns lies \<open>3 / 2\<^sup>4\<^sup>5\<close> above
  \<open>innerWidth - width - 8\<close>.
\<close>

lemma right_edge_rounding_example:
  "snd (positionTooltip
        \<lparr>rect_left = 1400, rect_top = 10, rect_bottom = 30, rect_width = 100, rect_height = 20\<rparr>
        \<lparr>rect_left = 0, rect_top = 0, rect_bottom = 40, rect_width = fl (1286 / 10),
          rect_height = 40\<rparr>
        1440 900)
   = 1440 - fl (1286 / 10) - 8 + 3 / 2 ^ 45"
  by code_simp



text \<open>
  The comparison is between rounded sums. For a trigger whose bottom edge is at \<open>713.7\<close>
  and a tooltip \<open>38.3\<close> high (the nearest doubles) in a window 768 high, the sum the code
  computes is exactly 760 and the tooltip stays below the trigger, while the sum of the
  two doubles and 8 is above 760.
\<close>

lemma flip_rounding_example:
  "768 - 8 < fl (7137 / 10) + 8 + fl (383 / 10)
   \<and> fst (positionTooltip
        \<lparr>rect_left = 10, rect_top = fl (6937 / 10), rect_bottom = fl (7137 / 10),
          rect_width = 100, rect_height = 20\<rparr>
        \<lparr>rect_left = 0, rect_top = 0, rect_bottom = fl (383 / 10), rect_width = 200,
          rect_height = fl (383 / 10)\<rparr>
        1024 768)
     = fl (7137 / 10) + 8"
  by code_simp

section \<open>Colour validation\<close>

lemma hexRegex_test_iff: "hexRegex_test s \<longleftrightarrow> hashHexColor s"
proof (cases s)
  case Nil
  then show ?thesis by (simp add: hexRegex_test_def hashHexColor_def)
next
  case (Cons c ds)
  have "list_all hexDigitClass ds \<longleftrightarrow> (\<forall>d \<in> set ds. digitValue d \<noteq> None)"
    by (simp add: list_all_iff hexDigitClass_iff)
  with Cons show ?thesis
    by (auto simp: hexRegex_test_def hashHexColor_def)
qed

text \<open>
  Claim C3. \<open>isValidColor\<close> was claimed to accept exactly the \<open>#\<close>-prefixed 3- and 6-digit
  hexadecimal strings. The function of the tag admin script does. The function of the same
  name in the colour picker widget accepts those strings and, beyond them, every
  non-empty string the CSS engine of the browser takes as a colour; it rejects the empty
  string.
\<close>

theorem isValidColor_characterised:
  "(isValidColor s \<longleftrightarrow> hashHexColor s)
   \<and> (isValidColor_picker cssAccepts s \<longleftrightarrow> hashHexColor s \<or> (s \<noteq> [] \<and> cssAccepts s))"
proof -
  have "\<not> hashHexColor []" by (simp add: hashHexColor_def)
  then show ?thesis
    by (auto simp: isValidColor_def isValidColor_picker_def hexRegex_test_iff)
qed

theorem isValidColor_characterised_witness:
  "isValidColor ''#1aF'' \<and> isValidColor ''#00cc44'' \<and> \<not> isValidColor ''00cc44''
   \<and> \<not> isValidColor [] \<and> \<not> isValidColor ''red''
   \<and> isValidColor_picker cssKeywordEngine ''#1aF''
   \<and> isValidColor_picker cssKeywordEngine ''red''
   \<and> \<not> isValidColor_picker cssKeywordEngine []"
  using isValidColor_characterised [of "''#1aF''" cssKeywordEngine]
    isValidColor_characterised [of "''#00cc44''" cssKeywordEngine]
    isValidColor_characterised [of "''00cc44''" cssKeywordEngine]
    isValidColor_characterised [of "[]" cssKeywordEngine]
    isValidColor_characterised [of "''red''" cssKeywordEngine]
  by (simp add: hashHexColor_def digitValue_def cssKeywordEngine_def cssBasicKeywords_def)

text \<open>With a browser that knows the keyword \<open>red\<close>, the widget accepts it.\<close>

theorem isValidColor_picker_counterexample:
  "isValidColor_picker cssKeywordEngine ''red'' \<and> \<not> hashHexColor ''red''"
  by (simp add: isValidColor_picker_def hexRegex_test_def cssKeywordEngine_def
      cssBasicKeywords_def hashHexColor_def)

section \<open>Conversion to rgba\<close>

lemma rgbaRegex_exec_six:
  assumes "list_all hexPairClass [d1, d2, d3, d4, d5, d6]"
    and "hex = [d1, d2, d3, d4, d5, d6] \<or> hex = CHR ''#'' # [d1, d2, d3, d4, d5, d6]"
    and "d1 \<noteq> CHR ''#''"
  shows "rgbaRegex_exec hex = Some ([d1, d2], [d3, d4], [d5, d6])"
  using assms by (auto simp: rgbaRegex_exec_def)

text \<open>
  Claim C4. For six hexadecimal digits, with or without the leading \<open>#\<close>, and every alpha
  text, \<open>hexToRgba\<close> returns \<open>rgba(r, g, b, alpha)\<close>, where each channel is the decimal text
  of the value \<open>parseInt\<close> gives its pair of digits in base 16, that is sixteen times the
  first digit plus the second.
\<close>

theorem hexToRgba_six_digits:
  assumes "digitValue d1 = Some v1" "digitValue d2 = Some v2" "digitValue d3 = Some v3"
    and "digitValue d4 = Some v4" "digitValue d5 = Some v5" "digitValue d6 = Some v6"
    and "hex = [d1, d2, d3, d4, d5, d6] \<or> hex = CHR ''#'' # [d1, d2, d3, d4, d5, d6]"
  shows "hexToRgba hex alpha =
           ''rgba('' @ decimalDigits (16 * v1 + v2) @ '', '' @ decimalDigits (16 * v3 + v4)
             @ '', '' @ decimalDigits (16 * v5 + v6) @ '', '' @ alpha @ '')''
         \<and> parseInt16 [d1, d2] = Some (int (16 * v1 + v2))
         \<and> parseInt16 [d3, d4] = Some (int (16 * v3 + v4))
         \<and> parseInt16 [d5, d6] = Some (int (16 * v5 + v6))"
proof -
  have cls: "list_all hexPairClass [d1, d2, d3, d4, d5, d6]"
    using assms(1-6) by (simp add: hexPairClass_iff)
  have d1: "d1 \<noteq> CHR ''#''" using digit_not_mark [OF assms(1)] by simp
  have ex: "rgbaRegex_exec hex = Some ([d1, d2], [d3, d4], [d5, d6])"
    using cls assms(7) d1 by (rule rgbaRegex_exec_six)
  have r: "parseInt16 [d1, d2] = Some (int (16 * v1 + v2))"
    using assms(1,2) by (rule parseInt16_pair)
  have g: "parseInt16 [d3, d4] = Some (int (16 * v3 + v4))"
    using assms(3,4) by (rule parseInt16_pair)
  have b: "parseInt16 [d5, d6] = Some (int (16 * v5 + v6))"
    using assms(5,6) by (rule parseInt16_pair)
  show ?thesis
    by (simp add: hexToRgba_def ex r g b numToString_def intToString_def
        del: of_nat_add of_nat_mult)
qed

theorem hexToRgba_red_half:
  "hexToRgba ''#ff0000'' ''0.5'' = ''rgba(255, 0, 0, 0.5)''"
  using hexToRgba_six_digits [of "CHR ''f''" 15 "CHR ''f''" 15 "CHR ''0''" 0 "CHR ''0''" 0
      "CHR ''0''" 0 "CHR ''0''" 0 "''#ff0000''" "''0.5''"]
  by (simp add: digitValue_def decimalDigits.simps)

text \<open>
  Claim C9. A \<open>#\<close>-prefixed 3-digit colour passes \<open>isValidColor\<close>, but the expression of
  \<open>hexToRgba\<close> asks for six digits: the colour comes back as it went in.
\<close>

theorem hexToRgba_three_digits_unchanged:
  assumes "isValidColor c" and "length c = 4"
  shows "hexToRgba c alpha = c"
proof -
  have "rgbaRegex_exec c = None"
    using assms(2) by (cases c) (auto simp: rgbaRegex_exec_def)
  then show ?thesis by (simp add: hexToRgba_def)
qed

theorem hexToRgba_three_digits_witness:
  "isValidColor ''#abc'' \<and> length ''#abc'' = 4 \<and> hexToRgba ''#abc'' ''0.5'' = ''#abc''"
  using hexToRgba_three_digits_unchanged [of "''#abc''" "''0.5''"]
  by (simp add: isValidColor_def hexRegex_test_def hexDigitClass_def)

section \<open>Colour history\<close>

lemma take_filter_take:
  "distinct xs \<Longrightarrow>
     take n (filter (\<lambda>x. x \<noteq> c) (take (Suc n) xs)) = take n (filter (\<lambda>x. x \<noteq> c) xs)"
proof (induction xs arbitrary: n)
  case Nil
  then show ?case by simp
next
  case (Cons a as)
  show ?case
  proof (cases "a = c")
    case True
    with Cons.prems have "c \<notin> set as" by simp
    then have "filter (\<lambda>x. x \<noteq> c) as = as" and "filter (\<lambda>x. x \<noteq> c) (take n as) = take n as"
      by (auto simp: filter_id_conv dest: in_set_takeD)
    with True show ?thesis by simp
  next
    case False
    show ?thesis
    proof (cases n)
      case 0
      then show ?thesis by simp
    next
      case (Suc m)
      from Cons.prems have "distinct as" by simp
      from Cons.IH [OF this, of m] False Suc show ?thesis by simp
    qed
  qed
qed

lemma remdups_snoc:
  "remdups (cs @ [c]) = filter (\<lambda>x. x \<noteq> c) (remdups cs) @ [c]"
  by (induction cs) auto

lemma getColorHistory_add:
  "getColorHistory (addToColorHistory color st) =
     take 10 (color # filter (\<lambda>c. c \<noteq> color) (getColorHistory st))"
  by (simp add: addToColorHistory_def getColorHistory_def MAX_HISTORY_def Let_def)

lemma colorHistoryAfter_snoc:
  "colorHistoryAfter (colors @ [c]) = addToColorHistory c (colorHistoryAfter colors)"
  by (simp add: colorHistoryAfter_def)

lemma colorHistory_closed_form:
  "getColorHistory (colorHistoryAfter colors) = take 10 (rev (remdups colors))"
proof (induction colors rule: rev_induct)
  case Nil
  then show ?case by (simp add: colorHistoryAfter_def getColorHistory_def)
next
  case (snoc c cs)
  have r: "rev (remdups (cs @ [c])) = c # filter (\<lambda>x. x \<noteq> c) (rev (remdups cs))"
    by (simp add: remdups_snoc rev_filter)
  have "getColorHistory (colorHistoryAfter (cs @ [c])) =
          take 10 (c # filter (\<lambda>x. x \<noteq> c) (take 10 (rev (remdups cs))))"
    by (simp only: colorHistoryAfter_snoc getColorHistory_add snoc.IH)
  also have "\<dots> = c # take 9 (filter (\<lambda>x. x \<noteq> c) (take (Suc 9) (rev (remdups cs))))"
    by simp
  also have "\<dots> = c # take 9 (filter (\<lambda>x. x \<noteq> c) (rev (remdups cs)))"
    by (simp only: take_filter_take [OF distinct_rev [THEN iffD2, OF distinct_remdups]])
  also have "\<dots> = take 10 (rev (remdups (cs @ [c])))"
    by (simp add: r)
  finally show ?case .
qed

text \<open>
  Claim C2. Take any sequence of colours added to an empty storage and add one more. The
  stored list then has at most ten entries and no duplicates; it lists the colours that
  were added, each once, the most recently added first, cut after the tenth; the new
  colour is at the front; and if it was in the list before, the list holds the same
  entries as before with that colour moved to the front.
\<close>

theorem color_history_invariant:
  fixes colors :: "string list" and color :: string
  defines "before \<equiv> getColorHistory (colorHistoryAfter colors)"
    and "after \<equiv> getColorHistory (addToColorHistory color (colorHistoryAfter colors))"
  shows "length after \<le> 10 \<and> distinct after
         \<and> after = take 10 (rev (remdups (colors @ [color])))
         \<and> hd after = color
         \<and> (color \<in> set before \<longrightarrow>
              after = color # filter (\<lambda>c. c \<noteq> color) before \<and> set after = set before
              \<and> length after = length before)"
proof -
  have a: "after = take 10 (rev (remdups (colors @ [color])))"
    unfolding after_def colorHistoryAfter_snoc [symmetric] by (rule colorHistory_closed_form)
  have b: "before = take 10 (rev (remdups colors))"
    unfolding before_def by (rule colorHistory_closed_form)
  have len: "length after \<le> 10" unfolding a by simp
  have dis: "distinct after" unfolding a by (intro distinct_take) simp
  have step: "after = take 10 (color # filter (\<lambda>c. c \<noteq> color) before)"
    unfolding after_def before_def by (rule getColorHistory_add)
  have hd: "hd after = color" unfolding step by simp
  have moved: "after = color # filter (\<lambda>c. c \<noteq> color) before \<and> set after = set before
       \<and> length after = length before" if mem: "color \<in> set before"
  proof -
    have db: "distinct before" unfolding b by (intro distinct_take) simp
    have lb: "length before \<le> 10" unfolding b by simp
    from mem have "length (filter (\<lambda>c. c \<noteq> color) before) < length before"
      by (intro length_filter_less [of color]) auto
    with lb have short: "length (filter (\<lambda>c. c \<noteq> color) before) \<le> 9" by simp
    then have eq: "after = color # filter (\<lambda>c. c \<noteq> color) before"
      unfolding step by simp
    have "set after = set before" unfolding eq using mem by auto
    moreover have "length after = length before"
      using db dis \<open>set after = set before\<close> by (metis distinct_card)
    ultimately show ?thesis using eq by simp
  qed
  from a len dis hd moved show ?thesis by blast
qed

lemmas history_eval =
  colorHistoryAfter_def addToColorHistory_def getColorHistory_def MAX_HISTORY_def Let_def

theorem color_history_invariant_witness:
  "''#ff0000'' \<in> set (getColorHistory (colorHistoryAfter [''#ff0000'', ''#00ff00'', ''#0000ff'']))
   \<and> getColorHistory (colorHistoryAfter [''#ff0000'', ''#00ff00'', ''#0000ff''])
       = [''#0000ff'', ''#00ff00'', ''#ff0000'']
   \<and> getColorHistory
        (addToColorHistory ''#ff0000'' (colorHistoryAfter [''#ff0000'', ''#00ff00'', ''#0000ff'']))
       = [''#ff0000'', ''#0000ff'', ''#00ff00'']"
  using color_history_invariant
    [where colors = "[''#ff0000'', ''#00ff00'', ''#0000ff'']" and color = "''#ff0000''"]
  by (simp add: history_eval)

section \<open>Preset clicks\<close>

lemma presetClick_used:
  assumes "''color-preset'' \<in> set (classList (target p))"
    and "''used'' \<in> set (classList (target p))"
  shows "presetClick p =
           p\<lparr>defaultPrevented := True, usedMessages := usedMessages p @ [dataColor (target p)]\<rparr>"
  using assms by (simp add: presetClick_def showColorUsedMessage_def Let_def)

text \<open>
  The handler with the guard: a click on a preset marked \<open>used\<close> leaves the container, and
  with it the input, as it was and dispatches no change event.
\<close>

lemma presetClick_used_guard:
  assumes "''color-preset'' \<in> set (classList (target p))"
    and "''used'' \<in> set (classList (target p))"
  shows "container (presetClick p) = container p"
    and "inputValueOf (presetClick p) = inputValueOf p"
    and "changeEvents (presetClick p) = changeEvents p"
  by (simp_all add: presetClick_used [OF assms] inputValueOf_def)

text \<open>Whenever that handler changes the container or dispatches, the preset was not marked.\<close>

lemma presetClick_frame:
  assumes "container (presetClick p) \<noteq> container p
           \<or> changeEvents (presetClick p) \<noteq> changeEvents p"
  shows "''color-preset'' \<in> set (classList (target p)) \<and> ''used'' \<notin> set (classList (target p))"
proof (rule ccontr)
  assume "\<not> ?thesis"
  then consider "''color-preset'' \<notin> set (classList (target p))"
    | "''color-preset'' \<in> set (classList (target p))" "''used'' \<in> set (classList (target p))"
    by blast
  then have "container (presetClick p) = container p
             \<and> changeEvents (presetClick p) = changeEvents p"
  proof cases
    case 1
    then show ?thesis by (simp add: presetClick_def)
  next
    case 2
    then show ?thesis by (simp add: presetClick_used_guard)
  qed
  with assms show False by blast
qed

lemmas click_eval =
  presetClick_def presetClick_static_def showColorUsedMessage_def classList_add_def
  classList_remove_def assigned_def dispatchChange_def changeListener_def
  changeListener_static_def syncPresetSelection_def syncPreset_def updateColorValue_def
  inputValueOf_def setValue_def sanitize_def validSimpleColor_def asciiLower_def
  digitValue_def Let_def

text \<open>
  Claim C5. A click on a colour preset that carries the class \<open>used\<close> must leave the value
  of the input unchanged and dispatch no change event. The sample page holds \<open>#3b82f6\<close>
  in its input and the clicked preset is red and marked \<open>used\<close>. The handler with the guard
  leaves the value and dispatches nothing; the handler of
  static/admin/js/color\_picker.js, the same handler without the guard, stores \<open>#ff0000\<close>
  in the input and dispatches a change event.
\<close>

theorem used_preset_click_static:
  "''color-preset'' \<in> set (classList (target usedPresetPage))
   \<and> ''used'' \<in> set (classList (target usedPresetPage))
   \<and> inputValueOf usedPresetPage = Some ''#3b82f6''
   \<and> inputValueOf (presetClick_static usedPresetPage) = Some ''#ff0000''
   \<and> changeEvents (presetClick_static usedPresetPage) = 1
   \<and> inputValueOf (presetClick usedPresetPage) = Some ''#3b82f6''
   \<and> changeEvents (presetClick usedPresetPage) = 0"
  by (simp add: usedPresetPage_def click_eval)

section \<open>The tooltip variables\<close>










lemmas tooltip_eval =
  tooltipRun_def initialTooltipState_def showTooltip_def hideTooltip_def hideTimeout_def
  animationFrame_def setOpacity_def positionTooltip_def Let_def

lemmas smart_eval =
  smartRun_def createSmartTooltip_def showTooltip_smart_def hideTooltip_smart_def
  createCallback_def fadeCallback_def removeCallback_def frameCallback_def clearTimeout_def
  setOpacity_def positionTooltip_def Let_def



text \<open>
  The callback of the global manager reads the variable when it runs, not when it was
  scheduled. Once both pending callbacks have run, the second tooltip is gone and the
  first one is still in the document.
\<close>

lemma hideTimeout_removes_newest:
  "map el_text (body (tooltipRun (twoHovers @ [HideTimeout, HideTimeout]))) = [''first'']
   \<and> currentTooltip (tooltipRun (twoHovers @ [HideTimeout, HideTimeout])) = None"
  by (simp add: twoHovers_def tooltip_eval)

text \<open>
  The smart tooltip that lost its variable to the second one is out of reach of the hide
  path: after the title has been left and both hide timers have run, it is still in the
  document.
\<close>

lemma smart_tooltip_orphan:
  "map el_id (sm_body (smartRun ''a long title'' (hoverThenFocus @ thenLeave))) = [0]
   \<and> sm_tooltip (smartRun ''a long title'' (hoverThenFocus @ thenLeave)) = None
   \<and> sm_timers (smartRun ''a long title'' (hoverThenFocus @ thenLeave)) = []"
  by (simp add: hoverThenFocus_def thenLeave_def smart_eval)

section \<open>Namespaces\<close>

text \<open>
  Claim C8. \<open>PWAnalystInit\<close>, \<open>PWAnalystTestResults\<close> and \<open>PWAnalystColorPicker\<close> each expose a
  callable \<open>initialize\<close>. \<open>PWAnalystTagAdmin\<close> exposes the three functions the tag admin
  script runs when the page has loaded, \<open>enhanceTagDisplay\<close>, \<open>initializeTagColorPreview\<close>
  and \<open>addTagUtilities\<close>, and nothing else.
\<close>

theorem namespaces_initialize:
  "callable PWAnalystInit ''initialize''
   \<and> callable PWAnalystTestResults ''initialize''
   \<and> callable PWAnalystColorPicker ''initialize''
   \<and> map fst PWAnalystTagAdmin
       = [''enhanceTagDisplay'', ''initializeTagColorPreview'', ''addTagUtilities'']
   \<and> callable PWAnalystTagAdmin ''enhanceTagDisplay''
   \<and> callable PWAnalystTagAdmin ''initializeTagColorPreview''
   \<and> callable PWAnalystTagAdmin ''addTagUtilities''"
  by (simp add: callable_def PWAnalystInit_def PWAnalystTestResults_def PWAnalystColorPicker_def
      PWAnalystTagAdmin_def)

theorem tagAdmin_initialize_counterexample:
  "map_of PWAnalystTagAdmin ''initialize'' = None
   \<and> \<not> callable PWAnalystTagAdmin ''initialize''"
  by (simp add: callable_def PWAnalystTagAdmin_def)

section \<open>The contrast colour\<close>

lemma luminance_bounds:
  assumes "0 \<le> r" "0 \<le> g" "0 \<le> b"
  shows "of_int (299 * r + 587 * g + 114 * b) / 255000 * (1 - 1 / 2 ^ 53) ^ 5 \<le> luminance r g b"
    and "luminance r g b \<le> of_int (299 * r + 587 * g + 114 * b) / 255000 * (1 + 1 / 2 ^ 53) ^ 5"
proof -
  let ?lo = "1 - 1 / 2 ^ 53 :: rat" and ?hi = "1 + 1 / 2 ^ 53 :: rat"
  define R G B :: rat where "R = of_int r" and "G = of_int g" and "B = of_int b"
  have nn: "0 \<le> R" "0 \<le> G" "0 \<le> B" using assms by (simp_all add: R_def G_def B_def)
  define p1 p2 p3 where "p1 = fl (fl (299 / 1000) * R)" and "p2 = fl (fl (587 / 1000) * G)"
    and "p3 = fl (fl (114 / 1000) * B)"
  define s1 s2 where "s1 = fl (p1 + p2)" and "s2 = fl (s1 + p3)"
  have L: "luminance r g b = fl (s2 / 255)"
    by (simp add: luminance_def s2_def s1_def p1_def p2_def p3_def R_def G_def B_def)
  have lo01: "0 \<le> ?lo" "?lo \<le> 1" and hi1: "1 \<le> ?hi" by simp_all
  have k: "(0::rat) \<le> 299 / 1000" "(0::rat) \<le> 587 / 1000" "(0::rat) \<le> 114 / 1000"
    by simp_all
  note P1 = fl_product_bounds [OF k(1) nn(1), folded p1_def]
    and P2 = fl_product_bounds [OF k(2) nn(2), folded p2_def]
    and P3 = fl_product_bounds [OF k(3) nn(3), folded p3_def]
  \<comment> \<open>from below\<close>
  have s1_lo: "(299 / 1000 * R + 587 / 1000 * G) * ?lo ^ 3 \<le> s1"
  proof -
    have "((299 / 1000 * R + 587 / 1000 * G) * ?lo ^ 2) * ?lo \<le> fl (p1 + p2)"
    proof (rule fl_lower)
      show "0 \<le> (299 / 1000 * R + 587 / 1000 * G) * ?lo ^ 2" using nn by simp
      show "(299 / 1000 * R + 587 / 1000 * G) * ?lo ^ 2 \<le> p1 + p2"
        using P1(1) P2(1) nn by (simp add: algebra_simps)
    qed
    then show ?thesis by (simp add: s1_def power3_eq_cube power2_eq_square mult_ac)
  qed
  have p3_lo: "114 / 1000 * B * ?lo ^ 3 \<le> p3"
  proof -
    have "114 / 1000 * B * ?lo ^ 2 * ?lo \<le> 114 / 1000 * B * ?lo ^ 2 * 1"
      using nn lo01 by (intro mult_left_mono) simp_all
    with P3(1) nn show ?thesis by (simp add: power3_eq_cube power2_eq_square mult_ac)
  qed
  have s2_lo: "(299 / 1000 * R + 587 / 1000 * G + 114 / 1000 * B) * ?lo ^ 4 \<le> s2"
  proof -
    have "((299 / 1000 * R + 587 / 1000 * G + 114 / 1000 * B) * ?lo ^ 3) * ?lo \<le> fl (s1 + p3)"
    proof (rule fl_lower)
      show "0 \<le> (299 / 1000 * R + 587 / 1000 * G + 114 / 1000 * B) * ?lo ^ 3" using nn by simp
      show "(299 / 1000 * R + 587 / 1000 * G + 114 / 1000 * B) * ?lo ^ 3 \<le> s1 + p3"
        using s1_lo p3_lo by (simp add: algebra_simps)
    qed
    then show ?thesis by (simp add: s2_def power_Suc [symmetric] mult_ac del: power_Suc)
  qed
  have "((299 / 1000 * R + 587 / 1000 * G + 114 / 1000 * B) * ?lo ^ 4 / 255) * ?lo
      \<le> fl (s2 / 255)"
  proof (rule fl_lower)
    show "0 \<le> (299 / 1000 * R + 587 / 1000 * G + 114 / 1000 * B) * ?lo ^ 4 / 255"
      using nn by simp
    show "(299 / 1000 * R + 587 / 1000 * G + 114 / 1000 * B) * ?lo ^ 4 / 255 \<le> s2 / 255"
      using s2_lo by (simp add: divide_right_mono)
  qed
  moreover have "((299 / 1000 * R + 587 / 1000 * G + 114 / 1000 * B) * ?lo ^ 4 / 255) * ?lo
      = of_int (299 * r + 587 * g + 114 * b) / 255000 * ?lo ^ 5"
    by (simp add: R_def G_def B_def field_simps)
  ultimately show "of_int (299 * r + 587 * g + 114 * b) / 255000 * ?lo ^ 5 \<le> luminance r g b"
    by (simp only: L)
  \<comment> \<open>from above\<close>
  have s1_nn: "0 \<le> p1 + p2" using P1(3) P2(3) by simp
  have s1_hi: "s1 \<le> (299 / 1000 * R + 587 / 1000 * G) * ?hi ^ 3"
  proof -
    have "fl (p1 + p2) \<le> ((299 / 1000 * R + 587 / 1000 * G) * ?hi ^ 2) * ?hi"
    proof (rule fl_upper)
      show "0 \<le> p1 + p2" by (rule s1_nn)
      show "p1 + p2 \<le> (299 / 1000 * R + 587 / 1000 * G) * ?hi ^ 2"
        using P1(2) P2(2) by (simp add: algebra_simps)
    qed
    then show ?thesis by (simp add: s1_def power3_eq_cube power2_eq_square mult_ac)
  qed
  have p3_hi: "p3 \<le> 114 / 1000 * B * ?hi ^ 3"
  proof -
    have "114 / 1000 * B * ?hi ^ 2 * 1 \<le> 114 / 1000 * B * ?hi ^ 2 * ?hi"
      using nn hi1 by (intro mult_left_mono) simp_all
    with P3(2) show ?thesis by (simp add: power3_eq_cube power2_eq_square mult_ac)
  qed
  have s2_nn: "0 \<le> s1 + p3" using fl_nonneg [OF s1_nn] P3(3) by (simp add: s1_def)
  have s2_hi: "s2 \<le> (299 / 1000 * R + 587 / 1000 * G + 114 / 1000 * B) * ?hi ^ 4"
  proof -
    have "fl (s1 + p3) \<le> ((299 / 1000 * R + 587 / 1000 * G + 114 / 1000 * B) * ?hi ^ 3) * ?hi"
    proof (rule fl_upper)
      show "0 \<le> s1 + p3" by (rule s2_nn)
      show "s1 + p3 \<le> (299 / 1000 * R + 587 / 1000 * G + 114 / 1000 * B) * ?hi ^ 3"
        using s1_hi p3_hi by (simp add: algebra_simps)
    qed
    then show ?thesis by (simp add: s2_def power_Suc [symmetric] mult_ac del: power_Suc)
  qed
  have "fl (s2 / 255)
      \<le> ((299 / 1000 * R + 587 / 1000 * G + 114 / 1000 * B) * ?hi ^ 4 / 255) * ?hi"
  proof (rule fl_upper)
    show "0 \<le> s2 / 255" using fl_nonneg [OF s2_nn] by (simp add: s2_def)
    show "s2 / 255 \<le> (299 / 1000 * R + 587 / 1000 * G + 114 / 1000 * B) * ?hi ^ 4 / 255"
      using s2_hi by (simp add: divide_right_mono)
  qed
  moreover have "((299 / 1000 * R + 587 / 1000 * G + 114 / 1000 * B) * ?hi ^ 4 / 255) * ?hi
      = of_int (299 * r + 587 * g + 114 * b) / 255000 * ?hi ^ 5"
    by (simp add: R_def G_def B_def field_simps)
  ultimately show "luminance r g b \<le> of_int (299 * r + 587 * g + 114 * b) / 255000 * ?hi ^ 5"
    by (simp only: L)
qed

lemma threshold_from_below: "(1 / 2 :: rat) < 127501 / 255000 * (1 - 1 / 2 ^ 53) ^ 5"
  by (simp add: power_divide)

lemma threshold_from_above: "(127499 :: rat) / 255000 * (1 + 1 / 2 ^ 53) ^ 5 \<le> 1 / 2"
  by (simp add: power_divide)

lemma luminance_above:
  assumes "0 \<le> r" "0 \<le> g" "0 \<le> b" and "127500 < 299 * r + 587 * g + 114 * b"
  shows "1 / 2 < luminance r g b"
proof -
  define S where "S = 299 * r + 587 * g + 114 * b"
  define lo5 :: rat where "lo5 = (1 - 1 / 2 ^ 53) ^ 5"
  have lo5: "0 \<le> lo5" unfolding lo5_def by (rule zero_le_power) simp
  from assms(4) have "127501 \<le> S" by (simp add: S_def)
  then have "(of_int 127501 :: rat) \<le> of_int S" by (simp only: of_int_le_iff)
  then have "(127501 :: rat) / 255000 \<le> of_int S / 255000"
    by (simp add: divide_right_mono)
  then have "(127501 :: rat) / 255000 * lo5 \<le> of_int S / 255000 * lo5"
    using lo5 by (rule mult_right_mono)
  moreover have "(1 / 2 :: rat) < 127501 / 255000 * lo5"
    unfolding lo5_def by (rule threshold_from_below)
  moreover have "of_int S / 255000 * lo5 \<le> luminance r g b"
    unfolding S_def lo5_def by (rule luminance_bounds(1) [OF assms(1-3)])
  ultimately show ?thesis by linarith
qed

lemma luminance_below:
  assumes "0 \<le> r" "0 \<le> g" "0 \<le> b" and "299 * r + 587 * g + 114 * b < 127500"
  shows "luminance r g b \<le> 1 / 2"
proof -
  define S where "S = 299 * r + 587 * g + 114 * b"
  define hi5 :: rat where "hi5 = (1 + 1 / 2 ^ 53) ^ 5"
  have hi5: "0 \<le> hi5" unfolding hi5_def by (rule zero_le_power) simp
  from assms(4) have "S \<le> 127499" by (simp add: S_def)
  then have "of_int S \<le> (of_int 127499 :: rat)" by (simp only: of_int_le_iff)
  then have "of_int S / 255000 \<le> (127499 :: rat) / 255000"
    by (simp add: divide_right_mono)
  then have "of_int S / 255000 * hi5 \<le> (127499 :: rat) / 255000 * hi5"
    using hi5 by (rule mult_right_mono)
  moreover have "(127499 :: rat) / 255000 * hi5 \<le> 1 / 2"
    unfolding hi5_def by (rule threshold_from_above)
  moreover have "luminance r g b \<le> of_int S / 255000 * hi5"
    unfolding S_def hi5_def by (rule luminance_bounds(2) [OF assms(1-3)])
  ultimately show ?thesis by linarith
qed

lemma getContrastColor_parsed:
  assumes "digitValue d1 = Some v1" "digitValue d2 = Some v2" "digitValue d3 = Some v3"
    and "digitValue d4 = Some v4" "digitValue d5 = Some v5" "digitValue d6 = Some v6"
  shows "getContrastColor (CHR ''#'' # [d1, d2, d3, d4, d5, d6]) =
           (if 1 / 2 < luminance (int (16 * v1 + v2)) (int (16 * v3 + v4)) (int (16 * v5 + v6))
            then ''#000000'' else ''#ffffff'')"
proof -
  have "replaceFirst CHR ''#'' (CHR ''#'' # [d1, d2, d3, d4, d5, d6]) = [d1, d2, d3, d4, d5, d6]"
    by simp
  moreover have "substr [d1, d2, d3, d4, d5, d6] 0 2 = [d1, d2]"
    "substr [d1, d2, d3, d4, d5, d6] 2 2 = [d3, d4]"
    "substr [d1, d2, d3, d4, d5, d6] 4 2 = [d5, d6]"
    by (simp_all add: substr_def)
  ultimately show ?thesis
    unfolding getContrastColor_def Let_def
    by (simp only: parseInt16_pair [OF assms(1,2)] parseInt16_pair [OF assms(3,4)]
        parseInt16_pair [OF assms(5,6)] prod.case option.case)
qed

text \<open>
  Claim C10. For a \<open>#\<close> and six hexadecimal digits \<open>getContrastColor\<close> returns one of
  \<open>#000000\<close> and \<open>#ffffff\<close>: the former exactly when the luminance computed in double
  precision exceeds one half. Whenever \<open>299 r + 587 g + 114 b\<close> is above 127500 that is the
  case, and whenever the sum is below 127500 it is not. At a sum of exactly 127500 the
  exact luminance is one half and the roundings decide.
\<close>

theorem getContrastColor_six_digits:
  assumes "digitValue d1 = Some v1" "digitValue d2 = Some v2" "digitValue d3 = Some v3"
    and "digitValue d4 = Some v4" "digitValue d5 = Some v5" "digitValue d6 = Some v6"
    and "r = int (16 * v1 + v2)" "g = int (16 * v3 + v4)" "b = int (16 * v5 + v6)"
    and "c = getContrastColor (CHR ''#'' # [d1, d2, d3, d4, d5, d6])"
  shows "(c = ''#000000'' \<or> c = ''#ffffff'')
         \<and> (c = ''#000000'' \<longleftrightarrow> 1 / 2 < luminance r g b)
         \<and> (127500 < 299 * r + 587 * g + 114 * b \<longrightarrow> c = ''#000000'')
         \<and> (299 * r + 587 * g + 114 * b < 127500 \<longrightarrow> c = ''#ffffff'')"
proof -
  have c: "c = (if 1 / 2 < luminance r g b then ''#000000'' else ''#ffffff'')"
    unfolding assms(7-10) using assms(1-6) by (rule getContrastColor_parsed)
  have nn: "0 \<le> r" "0 \<le> g" "0 \<le> b" by (simp_all add: assms(7-9))
  have up: "1 / 2 < luminance r g b" if "127500 < 299 * r + 587 * g + 114 * b"
    using nn that by (rule luminance_above)
  have down: "\<not> 1 / 2 < luminance r g b" if "299 * r + 587 * g + 114 * b < 127500"
    using luminance_below [OF nn that] by simp
  have ne: "''#000000'' \<noteq> ''#ffffff''" by simp
  show ?thesis
  proof (cases "1 / 2 < luminance r g b")
    case True
    with c have "c = ''#000000''" by simp
    with True down show ?thesis by blast
  next
    case False
    with c have "c = ''#ffffff''" by simp
    with False up ne show ?thesis by metis
  qed
qed

theorem getContrastColor_six_digits_witness:
  "getContrastColor ''#ffffff'' = ''#000000'' \<and> getContrastColor ''#102030'' = ''#ffffff''"
proof -
  have d: "digitValue CHR ''f'' = Some 15" "digitValue CHR ''0'' = Some 0"
    "digitValue CHR ''1'' = Some 1" "digitValue CHR ''2'' = Some 2" "digitValue CHR ''3'' = Some 3"
    by (simp_all add: digitValue_def)
  have "getContrastColor ''#ffffff'' = ''#000000''"
    using getContrastColor_six_digits [OF d(1) d(1) d(1) d(1) d(1) d(1) refl refl refl refl]
    by simp
  moreover have "getContrastColor ''#102030'' = ''#ffffff''"
    using getContrastColor_six_digits [OF d(3) d(2) d(4) d(2) d(5) d(2) refl refl refl refl]
    by simp
  ultimately show ?thesis by simp
qed

text \<open>
  The colour \<open>#da3af8\<close> has channels 218, 58 and 248, whose weighted sum is exactly 127500.
  In double precision its luminance comes out one unit in the last place above one half.
\<close>

lemma da3af8_channels:
  "parseInt16 ''da'' = Some 218 \<and> parseInt16 ''3a'' = Some 58 \<and> parseInt16 ''f8'' = Some 248"
  by (simp add: parseInt16_def stripSign_def stripHexPrefix_def isWhiteSpace_def digitValue_def)

lemma da3af8_luminance: "luminance 218 58 248 = 1 / 2 + 1 / 2 ^ 53"
  by code_simp

lemma da3af8_contrast: "getContrastColor ''#da3af8'' = ''#000000''"
  using da3af8_channels
  by (simp add: getContrastColor_def substr_def da3af8_luminance)

theorem getContrastColor_rounding_counterexample:
  "parseInt16 ''da'' = Some 218 \<and> parseInt16 ''3a'' = Some 58 \<and> parseInt16 ''f8'' = Some 248
   \<and> \<not> (127500 :: int) < 299 * 218 + 587 * 58 + 114 * 248
   \<and> getContrastColor ''#da3af8'' = ''#000000''"
  using da3af8_channels da3af8_contrast by simp

end
